theory Spec2Isabelle
  imports Complex_Main
begin

section \<open>The Whisper transcription service (modal-whisper-service/main.py)\<close>

text \<open>
  The service has two functions: \<open>transcribe_video\<close>, which downloads the audio of a
  video, probes its duration, cuts it into chunks when it is longer than
  \<open>chunk_duration\<close>, runs the recognition model on each chunk and merges the results;
  and \<open>transcribe_endpoint\<close>, the web endpoint in front of it.

  Everything the code does outside Python (loading the model, \<open>yt-dlp\<close>, \<open>ffprobe\<close>,
  \<open>ffmpeg\<close>, \<open>model.transcribe\<close>) is a field of an environment record that says, for
  each call, whether it fails and what it returns. Every such call is logged in a trace
  of events, in the order the code makes them; an exception is a value \<open>Inl e\<close>.

  Python's \<open>float\<close> is idealised as an exact rational number (\<open>rat\<close>): rounding,
  infinities and NaN are not modelled. Python's \<open>int\<close> is \<open>int\<close>.
\<close>

subsection \<open>Data\<close>

text \<open>A value decoded from a JSON body: what the endpoint's \<open>item\<close> dict can hold.\<close>

datatype json =
  JNull | JBool bool | JNum rat | JStr string | JArr "json list" | JObj "(string \<times> json) list"

text \<open>Python's truth value of such a value (\<open>not video_url\<close> is its negation).\<close>

fun truthy :: "json \<Rightarrow> bool" where
  "truthy JNull = False"
| "truthy (JBool b) = b"
| "truthy (JNum x) = (x \<noteq> 0)"
| "truthy (JStr s) = (s \<noteq> [])"
| "truthy (JArr xs) = (xs \<noteq> [])"
| "truthy (JObj kvs) = (kvs \<noteq> [])"

text \<open>The exceptions that can arise in the two functions.\<close>

datatype py_error =
  CalledProcessError | ValueError | ZeroDivisionError | TypeError | ModelError

text \<open>The files in the temporary directory: \<open>audio.m4a\<close> and \<open>chunk_i.m4a\<close>.\<close>

datatype tmp_file = Audio_file | Chunk_file nat

text \<open>
  The external calls. \<open>Ffmpeg start_time chunk_duration i\<close> is the command with
  \<open>-ss start_time -t chunk_duration\<close> writing \<open>chunk_i.m4a\<close>.
\<close>

datatype event =
  Load_model | Yt_dlp string | Ffprobe | Ffmpeg int int nat | Whisper tmp_file

text \<open>A segment as \<open>model.transcribe\<close> returns it, and its result dict.\<close>

record raw_segment =
  raw_start :: rat
  raw_end :: rat
  raw_text :: string

record recognition =
  res_text :: string
  res_segments :: "raw_segment list"

text \<open>A segment of the returned dict, and the returned dict.\<close>

record segment =
  seg_start :: rat
  seg_end :: rat
  seg_text :: string

record transcript =
  tr_text :: string
  tr_segments :: "segment list"

text \<open>
  The environment. \<open>load_model\<close>, \<open>yt_dlp\<close> and \<open>ffmpeg\<close> give the exception raised, if
  any (\<open>check=True\<close> turns a non-zero exit status into \<open>CalledProcessError\<close>);
  \<open>ffprobe\<close> gives the duration parsed by \<open>float\<close>, or the exception of the command or
  of the parse; \<open>transcribe\<close> gives the model's result on a file, or its exception.
\<close>

record env =
  load_model :: "py_error option"
  yt_dlp :: "string \<Rightarrow> py_error option"
  ffprobe :: "py_error + rat"
  ffmpeg :: "int \<Rightarrow> int \<Rightarrow> nat \<Rightarrow> py_error option"
  transcribe :: "tmp_file \<Rightarrow> py_error + recognition"

subsection \<open>Python primitives\<close>

text \<open>\<open>int(x)\<close> on a float truncates towards zero.\<close>

definition py_int :: "rat \<Rightarrow> int" where
  "py_int x = (if 0 \<le> x then \<lfloor>x\<rfloor> else \<lceil>x\<rceil>)"

text \<open>\<open>range(n)\<close>: empty when \<open>n \<le> 0\<close>.\<close>

definition py_range :: "int \<Rightarrow> nat list" where
  "py_range n = [0..<nat n]"

text \<open>\<open>sep.join(xs)\<close>.\<close>

fun str_join :: "string \<Rightarrow> string list \<Rightarrow> string" where
  "str_join sep [] = []"
| "str_join sep [x] = x"
| "str_join sep (x # y # ys) = x @ sep @ str_join sep (y # ys)"

text \<open>\<open>item.get(key)\<close>: \<open>None\<close> when the key is absent, which is also what JSON null is.\<close>

definition dict_get :: "(string \<rightharpoonup> json) \<Rightarrow> string \<Rightarrow> json" where
  "dict_get item k = (case item k of None \<Rightarrow> JNull | Some v \<Rightarrow> v)"

subsection \<open>transcribe\_video\<close>

text \<open>
  The download (lines 66-72). \<open>subprocess.run\<close> raises \<open>TypeError\<close> before starting the
  command when an argument is not a string.
\<close>

definition run_yt_dlp :: "env \<Rightarrow> json \<Rightarrow> event list \<times> py_error option" where
  "run_yt_dlp env video_url =
     (case video_url of
        JStr url \<Rightarrow> ([Yt_dlp url], yt_dlp env url)
      | _ \<Rightarrow> ([], Some TypeError))"

text \<open>Line 104: \<open>num_chunks = int(duration / chunk_duration) + 1\<close>.\<close>

definition num_chunks :: "rat \<Rightarrow> int \<Rightarrow> int" where
  "num_chunks duration chunk_duration = py_int (duration / of_int chunk_duration) + 1"

text \<open>
  The first loop (lines 106-119), over the indices still to do, with the trace and the
  list \<open>chunks\<close> built so far.
\<close>

fun split_loop ::
  "env \<Rightarrow> int \<Rightarrow> nat list \<Rightarrow> event list \<Rightarrow> (int \<times> tmp_file) list
   \<Rightarrow> event list \<times> (py_error + (int \<times> tmp_file) list)" where
  "split_loop env chunk_duration [] tr chunks = (tr, Inr chunks)"
| "split_loop env chunk_duration (i # rest) tr chunks =
     (let start_time = int i * chunk_duration;
          chunk_file = Chunk_file i;
          tr' = tr @ [Ffmpeg start_time chunk_duration i]
      in case ffmpeg env start_time chunk_duration i of
           Some e \<Rightarrow> (tr', Inl e)
         | None \<Rightarrow> split_loop env chunk_duration rest tr' (chunks @ [(start_time, chunk_file)]))"

text \<open>Lines 132-136: a segment of a chunk, moved by the chunk's start time.\<close>

definition adjust :: "int \<Rightarrow> raw_segment \<Rightarrow> segment" where
  "adjust start_time seg =
     \<lparr>seg_start = raw_start seg + of_int start_time,
      seg_end = raw_end seg + of_int start_time,
      seg_text = raw_text seg\<rparr>"

text \<open>Lines 92-96: a segment of the whole file, copied.\<close>

definition copy_segment :: "raw_segment \<Rightarrow> segment" where
  "copy_segment seg =
     \<lparr>seg_start = raw_start seg, seg_end = raw_end seg, seg_text = raw_text seg\<rparr>"

text \<open>
  The second loop (lines 126-138), over the chunks still to do, with the trace and the
  lists \<open>all_segments\<close> and \<open>full_text\<close> built so far.
\<close>

fun transcribe_loop ::
  "env \<Rightarrow> (int \<times> tmp_file) list \<Rightarrow> event list \<Rightarrow> segment list \<Rightarrow> string list
   \<Rightarrow> event list \<times> (py_error + segment list \<times> string list)" where
  "transcribe_loop env [] tr all_segments full_text = (tr, Inr (all_segments, full_text))"
| "transcribe_loop env ((start_time, chunk_file) # rest) tr all_segments full_text =
     (let tr' = tr @ [Whisper chunk_file]
      in case transcribe env chunk_file of
           Inl e \<Rightarrow> (tr', Inl e)
         | Inr result \<Rightarrow>
             transcribe_loop env rest tr'
               (all_segments @ map (adjust start_time) (res_segments result))
               (full_text @ [res_text result]))"

text \<open>
  The function (lines 40-150). The \<open>except\<close> clause prints and raises again, so an
  exception anywhere is the function's result.
\<close>

definition transcribe_video ::
  "env \<Rightarrow> json \<Rightarrow> int \<Rightarrow> event list \<times> (py_error + transcript)" where
  "transcribe_video env video_url chunk_duration =
     (case load_model env of
        Some e \<Rightarrow> ([Load_model], Inl e)
      | None \<Rightarrow>
         (case run_yt_dlp env video_url of
            (dl, Some e) \<Rightarrow> (Load_model # dl, Inl e)
          | (dl, None) \<Rightarrow>
             (let tr = Load_model # dl @ [Ffprobe] in
              case ffprobe env of
                Inl e \<Rightarrow> (tr, Inl e)
              | Inr duration \<Rightarrow>
                  if duration \<le> of_int chunk_duration then
                    (case transcribe env Audio_file of
                       Inl e \<Rightarrow> (tr @ [Whisper Audio_file], Inl e)
                     | Inr result \<Rightarrow>
                         (tr @ [Whisper Audio_file],
                          Inr \<lparr>tr_text = res_text result,
                               tr_segments = map copy_segment (res_segments result)\<rparr>))
                  else if chunk_duration = 0 then (tr, Inl ZeroDivisionError)
                  else
                    (case split_loop env chunk_duration
                            (py_range (num_chunks duration chunk_duration)) tr [] of
                       (tr', Inl e) \<Rightarrow> (tr', Inl e)
                     | (tr', Inr chunks) \<Rightarrow>
                         (case transcribe_loop env chunks tr' [] [] of
                            (tr'', Inl e) \<Rightarrow> (tr'', Inl e)
                          | (tr'', Inr (all_segments, full_text)) \<Rightarrow>
                              (tr'', Inr \<lparr>tr_text = str_join '' '' full_text,
                                         tr_segments = all_segments\<rparr>))))))"

subsection \<open>transcribe\_endpoint\<close>

text \<open>
  \<open>transcribe_video.remote(video_url, ...)\<close>: a call that may leave \<open>chunk_duration\<close>
  out, and then gets the default of the signature, 600.
\<close>

definition transcribe_video_remote ::
  "env \<Rightarrow> json \<Rightarrow> int option \<Rightarrow> event list \<times> (py_error + transcript)" where
  "transcribe_video_remote env video_url chunk_duration =
     transcribe_video env video_url (case chunk_duration of None \<Rightarrow> 600 | Some c \<Rightarrow> c)"

text \<open>
  What the endpoint returns: the transcript dict alone (\<open>return result\<close>), or a Python
  tuple of an error dict and an integer (\<open>return {"error": ...}, 400\<close>). The error dict
  holds a literal message or \<open>str(e)\<close> of an exception. The integer is the second
  element of the returned tuple; the function builds no response object and sets no
  status of its own.
\<close>

datatype body = Error_literal string | Error_str py_error | Result transcript

type_synonym response = "body \<times> int option"

definition transcribe_endpoint :: "env \<Rightarrow> (string \<rightharpoonup> json) \<Rightarrow> event list \<times> response" where
  "transcribe_endpoint env item =
     (let video_url = dict_get item ''video_url'' in
      if \<not> truthy video_url then ([], (Error_literal ''video_url is required'', Some 400))
      else
        (case transcribe_video_remote env video_url None of
           (tr, Inr result) \<Rightarrow> (tr, (Result result, None))
         | (tr, Inl e) \<Rightarrow> (tr, (Error_str e, Some 500))))"

subsection \<open>Reading a trace\<close>

text \<open>The exception a call raises in an environment, if it raises one.\<close>

fun outcome :: "env \<Rightarrow> event \<Rightarrow> py_error option" where
  "outcome env Load_model = load_model env"
| "outcome env (Yt_dlp url) = yt_dlp env url"
| "outcome env Ffprobe = (case ffprobe env of Inl e \<Rightarrow> Some e | Inr d \<Rightarrow> None)"
| "outcome env (Ffmpeg start_time chunk_duration i) = ffmpeg env start_time chunk_duration i"
| "outcome env (Whisper f) = (case transcribe env f of Inl e \<Rightarrow> Some e | Inr r \<Rightarrow> None)"


text \<open>The extraction call of chunk \<open>i\<close>, and the entry it adds to \<open>chunks\<close>.\<close>

definition cut_event :: "int \<Rightarrow> nat \<Rightarrow> event" where
  "cut_event c i = Ffmpeg (int i * c) c i"

definition chunk_of :: "int \<Rightarrow> nat \<Rightarrow> int \<times> tmp_file" where
  "chunk_of c i = (int i * c, Chunk_file i)"

text \<open>
  A run is clean when no call is made twice, every call but the last succeeded, and a
  last call that failed gives the run's exception.
\<close>

definition clean_trace :: "env \<Rightarrow> event list \<times> (py_error + transcript) \<Rightarrow> bool" where
  "clean_trace env r \<longleftrightarrow>
     distinct (fst r)
     \<and> (\<forall>ev\<in>set (butlast (fst r)). outcome env ev = None)
     \<and> (\<forall>e. fst r \<noteq> [] \<and> outcome env (last (fst r)) = Some e \<longrightarrow> snd r = Inl e)"

subsection \<open>Sample environments\<close>

text \<open>
  An environment in which every call succeeds: the audio lasts \<open>d\<close> seconds, and the
  model hears one segment from second 5 to second 9 in every file.
\<close>

definition sample_result :: "tmp_file \<Rightarrow> recognition" where
  "sample_result f =
     \<lparr>res_text = (case f of Audio_file \<Rightarrow> ''all'' | Chunk_file i \<Rightarrow> (if i = 0 then ''hello'' else ''world'')),
      res_segments = [\<lparr>raw_start = 5, raw_end = 9, raw_text = ''hi''\<rparr>]\<rparr>"

definition sample_env :: "rat \<Rightarrow> env" where
  "sample_env d =
     \<lparr>load_model = None,
      yt_dlp = (\<lambda>url. None),
      ffprobe = Inr d,
      ffmpeg = (\<lambda>start_time chunk_duration i. None),
      transcribe = (\<lambda>f. Inr (sample_result f))\<rparr>"

text \<open>The same, but the model fails on the second chunk.\<close>

definition failing_env :: "rat \<Rightarrow> env" where
  "failing_env d =
     (sample_env d)\<lparr>transcribe :=
        (\<lambda>f. if f = Chunk_file 1 then Inl ModelError else Inr (sample_result f))\<rparr>"

text \<open>The same as \<open>sample_env\<close>, but the probe fails.\<close>

definition unreadable_env :: env where
  "unreadable_env = (sample_env 0)\<lparr>ffprobe := Inl ValueError\<rparr>"

section \<open>Properties\<close>

subsection \<open>The two loops\<close>

lemma split_loop_ok:
  "\<forall>i\<in>set ixs. ffmpeg env (int i * c) c i = None \<Longrightarrow>
   split_loop env c ixs tr chunks = (tr @ map (cut_event c) ixs, Inr (chunks @ map (chunk_of c) ixs))"
  by (induction ixs arbitrary: tr chunks) (simp_all add: cut_event_def chunk_of_def Let_def)

lemma split_loop_fail:
  "\<forall>j\<in>set pre. ffmpeg env (int j * c) c j = None \<Longrightarrow> ffmpeg env (int i * c) c i = Some e \<Longrightarrow>
   split_loop env c (pre @ i # post) tr chunks = (tr @ map (cut_event c) pre @ [cut_event c i], Inl e)"
  by (induction pre arbitrary: tr chunks) (simp_all add: cut_event_def chunk_of_def Let_def)

lemma transcribe_loop_ok:
  "\<forall>i\<in>set ixs. transcribe env (Chunk_file i) = Inr (rs i) \<Longrightarrow>
   transcribe_loop env (map (chunk_of c) ixs) tr segs texts =
     (tr @ map (\<lambda>i. Whisper (Chunk_file i)) ixs,
      Inr (segs @ concat (map (\<lambda>i. map (adjust (int i * c)) (res_segments (rs i))) ixs),
           texts @ map (\<lambda>i. res_text (rs i)) ixs))"
  by (induction ixs arbitrary: tr segs texts) (simp_all add: chunk_of_def Let_def)

lemma transcribe_loop_fail:
  "\<forall>j\<in>set pre. \<exists>r. transcribe env (Chunk_file j) = Inr r \<Longrightarrow> transcribe env (Chunk_file i) = Inl e \<Longrightarrow>
   transcribe_loop env (map (chunk_of c) (pre @ i # post)) tr segs texts =
     (tr @ map (\<lambda>i. Whisper (Chunk_file i)) pre @ [Whisper (Chunk_file i)], Inl e)"
  by (induction pre arbitrary: tr segs texts) (auto simp add: chunk_of_def Let_def)


lemma chunked_unfold:
  assumes "load_model env = None" "yt_dlp env url = None" "ffprobe env = Inr d"
    "of_int c < d" "c \<noteq> 0"
  shows "transcribe_video env (JStr url) c =
     (case split_loop env c [0..<nat (num_chunks d c)] [Load_model, Yt_dlp url, Ffprobe] [] of
        (tr', Inl e) \<Rightarrow> (tr', Inl e)
      | (tr', Inr chunks) \<Rightarrow>
          (case transcribe_loop env chunks tr' [] [] of
             (tr'', Inl e) \<Rightarrow> (tr'', Inl e)
           | (tr'', Inr (all_segments, full_text)) \<Rightarrow>
               (tr'', Inr \<lparr>tr_text = str_join '' '' full_text, tr_segments = all_segments\<rparr>)))"
  using assms by (simp add: transcribe_video_def run_yt_dlp_def py_range_def)

lemma chunked_ok:
  assumes "load_model env = None" "yt_dlp env url = None" "ffprobe env = Inr d"
    "of_int c < d" "c \<noteq> 0"
    and cut_ok: "\<forall>i<nat (num_chunks d c). ffmpeg env (int i * c) c i = None"
    and rec_ok: "\<forall>i<nat (num_chunks d c). transcribe env (Chunk_file i) = Inr (rs i)"
  shows "transcribe_video env (JStr url) c =
     ([Load_model, Yt_dlp url, Ffprobe] @ map (cut_event c) [0..<nat (num_chunks d c)]
        @ map (\<lambda>i. Whisper (Chunk_file i)) [0..<nat (num_chunks d c)],
      Inr \<lparr>tr_text = str_join '' '' (map (\<lambda>i. res_text (rs i)) [0..<nat (num_chunks d c)]),
           tr_segments = concat (map (\<lambda>i. map (adjust (int i * c)) (res_segments (rs i)))
                                   [0..<nat (num_chunks d c)])\<rparr>)"
proof -
  have a: "\<forall>i\<in>set [0..<nat (num_chunks d c)]. ffmpeg env (int i * c) c i = None"
    using cut_ok by simp
  have b: "\<forall>i\<in>set [0..<nat (num_chunks d c)]. transcribe env (Chunk_file i) = Inr (rs i)"
    using rec_ok by simp
  show ?thesis
    by (simp add: chunked_unfold [OF assms(1-5)] split_loop_ok [OF a] transcribe_loop_ok [OF b])
qed

lemma chunked_cut_fail:
  assumes "load_model env = None" "yt_dlp env url = None" "ffprobe env = Inr d"
    "of_int c < d" "c \<noteq> 0"
    and "i < nat (num_chunks d c)"
    and "\<forall>j<i. ffmpeg env (int j * c) c j = None"
    and "ffmpeg env (int i * c) c i = Some e"
  shows "transcribe_video env (JStr url) c =
     ([Load_model, Yt_dlp url, Ffprobe] @ map (cut_event c) [0..<i] @ [cut_event c i], Inl e)"
proof -
  have s: "[0..<nat (num_chunks d c)] = [0..<i] @ i # [Suc i..<nat (num_chunks d c)]"
    using assms(6) by (metis upt_conv_Cons upt_add_eq_append le0 le_add_diff_inverse less_imp_le_nat)
  have a: "\<forall>j\<in>set [0..<i]. ffmpeg env (int j * c) c j = None"
    using assms(7) by simp
  show ?thesis
    unfolding chunked_unfold [OF assms(1-5)] s
    by (simp add: split_loop_fail [OF a assms(8)])
qed

lemma chunked_rec_fail:
  assumes "load_model env = None" "yt_dlp env url = None" "ffprobe env = Inr d"
    "of_int c < d" "c \<noteq> 0"
    and cut_ok: "\<forall>i<nat (num_chunks d c). ffmpeg env (int i * c) c i = None"
    and "i < nat (num_chunks d c)"
    and "\<forall>j<i. \<exists>r. transcribe env (Chunk_file j) = Inr r"
    and "transcribe env (Chunk_file i) = Inl e"
  shows "transcribe_video env (JStr url) c =
     ([Load_model, Yt_dlp url, Ffprobe] @ map (cut_event c) [0..<nat (num_chunks d c)]
        @ map (\<lambda>i. Whisper (Chunk_file i)) [0..<i] @ [Whisper (Chunk_file i)], Inl e)"
proof -
  have s: "[0..<nat (num_chunks d c)] = [0..<i] @ i # [Suc i..<nat (num_chunks d c)]"
    using assms(7) by (metis upt_conv_Cons upt_add_eq_append le0 le_add_diff_inverse less_imp_le_nat)
  have a: "\<forall>i\<in>set [0..<nat (num_chunks d c)]. ffmpeg env (int i * c) c i = None"
    using cut_ok by simp
  have b: "\<forall>j\<in>set [0..<i]. \<exists>r. transcribe env (Chunk_file j) = Inr r"
    using assms(8) by simp
  have "transcribe_loop env (map (chunk_of c) [0..<nat (num_chunks d c)])
          ([Load_model, Yt_dlp url, Ffprobe] @ map (cut_event c) [0..<nat (num_chunks d c)]) [] [] =
        (([Load_model, Yt_dlp url, Ffprobe] @ map (cut_event c) [0..<nat (num_chunks d c)])
           @ map (\<lambda>i. Whisper (Chunk_file i)) [0..<i] @ [Whisper (Chunk_file i)], Inl e)"
    by (subst s) (rule transcribe_loop_fail [OF b assms(9)])
  then show ?thesis
    by (simp add: chunked_unfold [OF assms(1-5)] split_loop_ok [OF a])
qed


lemma first_failure:
  fixes P :: "nat \<Rightarrow> bool"
  assumes "\<exists>i<n. P i"
  shows "\<exists>i<n. P i \<and> (\<forall>j<i. \<not> P j)"
proof -
  from assms obtain k where k: "k < n" "P k" by blast
  define i where "i = (LEAST m. P m)"
  have "P i" unfolding i_def using k(2) by (rule LeastI)
  moreover have "i \<le> k" unfolding i_def using k(2) by (rule Least_le)
  moreover have "\<forall>j<i. \<not> P j" unfolding i_def using not_less_Least by blast
  ultimately show ?thesis using k(1) by (meson le_less_trans)
qed

lemma success_pre:
  assumes "snd (transcribe_video env v c) = Inr t"
  shows "load_model env = None \<and> (\<exists>url. v = JStr url \<and> yt_dlp env url = None)
         \<and> (\<exists>d. ffprobe env = Inr d \<and> (of_int c < d \<longrightarrow> c \<noteq> 0))"
  using assms
  by (cases v)
     (auto simp add: transcribe_video_def run_yt_dlp_def Let_def
           split: option.splits sum.splits if_splits prod.splits)

lemma chunked_success_inv:
  assumes pre: "load_model env = None" "yt_dlp env url = None" "ffprobe env = Inr d"
    "of_int c < d" "c \<noteq> 0"
    and ok: "snd (transcribe_video env (JStr url) c) = Inr t"
  shows "(\<forall>i<nat (num_chunks d c). ffmpeg env (int i * c) c i = None)
       \<and> (\<forall>i<nat (num_chunks d c). \<exists>r. transcribe env (Chunk_file i) = Inr r)"
proof -
  have cut_ok: "\<forall>i<nat (num_chunks d c). ffmpeg env (int i * c) c i = None"
  proof (rule ccontr)
    assume "\<not> ?thesis"
    then have "\<exists>i<nat (num_chunks d c). ffmpeg env (int i * c) c i \<noteq> None" by simp
    from first_failure [OF this]
    obtain i e where "i < nat (num_chunks d c)" "ffmpeg env (int i * c) c i = Some e"
      "\<forall>j<i. ffmpeg env (int j * c) c j = None" by auto
    from chunked_cut_fail [OF pre this(1) this(3) this(2)] ok show False by simp
  qed
  have "\<forall>i<nat (num_chunks d c). \<exists>r. transcribe env (Chunk_file i) = Inr r"
  proof (rule ccontr)
    assume "\<not> ?thesis"
    then have "\<exists>i<nat (num_chunks d c). \<not> (\<exists>r. transcribe env (Chunk_file i) = Inr r)" by simp
    from first_failure [OF this]
    obtain i where i: "i < nat (num_chunks d c)" "\<not> (\<exists>r. transcribe env (Chunk_file i) = Inr r)"
      "\<forall>j<i. \<exists>r. transcribe env (Chunk_file j) = Inr r" by auto
    from i(2) obtain e where "transcribe env (Chunk_file i) = Inl e"
      by (cases "transcribe env (Chunk_file i)") auto
    from chunked_rec_fail [OF pre cut_ok i(1) i(3) this] ok show False by simp
  qed
  with cut_ok show ?thesis by simp
qed

lemma chunked_success:
  assumes ok: "snd (transcribe_video env v c) = Inr t"
    and d: "ffprobe env = Inr d" "of_int c < d"
    and rs: "\<forall>i<nat (num_chunks d c). transcribe env (Chunk_file i) = Inr (rs i)"
  shows "t = \<lparr>tr_text = str_join '' '' (map (\<lambda>i. res_text (rs i)) [0..<nat (num_chunks d c)]),
           tr_segments = concat (map (\<lambda>i. map (adjust (int i * c)) (res_segments (rs i)))
                                   [0..<nat (num_chunks d c)])\<rparr>"
proof -
  from success_pre [OF ok] d obtain url where
    pre: "load_model env = None" "yt_dlp env url = None" "c \<noteq> 0" and v: "v = JStr url"
    by auto
  note p = pre(1,2) d pre(3)
  from chunked_success_inv [OF p] ok v
  have "\<forall>i<nat (num_chunks d c). ffmpeg env (int i * c) c i = None" by simp
  from chunked_ok [OF p this rs] ok v show ?thesis by simp
qed

subsection \<open>Short audio\<close>

text \<open>
  Claim C3. When the probed duration \<open>d\<close> is at most \<open>chunk_duration\<close>, the run makes
  exactly four calls: the model load, the download, the probe and one recognition call
  on the whole audio file. There is no extraction call. The result is the model's text
  and its segments with their own start and end times, nothing added; if the model
  fails, the result is its exception.
\<close>

theorem short_audio_is_transcribed_directly:
  assumes "load_model env = None" and "yt_dlp env url = None"
    and "ffprobe env = Inr d" and "d \<le> of_int c"
  shows "transcribe_video env (JStr url) c =
     ([Load_model, Yt_dlp url, Ffprobe, Whisper Audio_file],
      case transcribe env Audio_file of
        Inl e \<Rightarrow> Inl e
      | Inr result \<Rightarrow>
          Inr \<lparr>tr_text = res_text result,
               tr_segments =
                 map (\<lambda>s. \<lparr>seg_start = raw_start s, seg_end = raw_end s, seg_text = raw_text s\<rparr>)
                     (res_segments result)\<rparr>)"
proof -
  have "copy_segment = (\<lambda>s. \<lparr>seg_start = raw_start s, seg_end = raw_end s, seg_text = raw_text s\<rparr>)"
    by (rule ext) (simp add: copy_segment_def)
  with assms show ?thesis
    by (simp add: transcribe_video_def run_yt_dlp_def split: sum.splits)
qed

theorem short_audio_is_transcribed_directly_witness:
  "load_model (sample_env 600) = None \<and> yt_dlp (sample_env 600) ''u'' = None
   \<and> ffprobe (sample_env 600) = Inr 600 \<and> (600::rat) \<le> of_int 600
   \<and> transcribe_video (sample_env 600) (JStr ''u'') 600 =
     ([Load_model, Yt_dlp ''u'', Ffprobe, Whisper Audio_file],
      Inr \<lparr>tr_text = ''all'',
           tr_segments = [\<lparr>seg_start = 5, seg_end = 9, seg_text = ''hi''\<rparr>]\<rparr>)"
  using short_audio_is_transcribed_directly [of "sample_env 600" "''u''" 600 600]
  by (simp add: sample_env_def sample_result_def)

subsection \<open>Merging the chunks\<close>

text \<open>
  Claim C2. In a run that took the chunked path (\<open>d > chunk_duration\<close>) and returned a
  transcript, where \<open>rs i\<close> is what the model returned on chunk \<open>i\<close>, the segments of the
  transcript are the segments of \<open>rs 0\<close>, \<open>rs 1\<close>, ... in this order, each with the
  chunk's start time \<open>i * chunk_duration\<close> added to its start and to its end and with
  its text unchanged. A run that returns a transcript has such an \<open>rs\<close>
  (\<open>chunked_success_inv\<close>).
\<close>

theorem adjusted_segments:
  assumes "snd (transcribe_video env video_url c) = Inr t"
    and "ffprobe env = Inr d" and "of_int c < d"
    and "\<forall>i<nat (num_chunks d c). transcribe env (Chunk_file i) = Inr (rs i)"
  shows "tr_segments t =
     concat (map (\<lambda>i. map (\<lambda>s. \<lparr>seg_start = raw_start s + of_int (int i * c),
                                 seg_end = raw_end s + of_int (int i * c),
                                 seg_text = raw_text s\<rparr>)
                           (res_segments (rs i)))
                 [0..<nat (num_chunks d c)])"
proof -
  have "adjust k = (\<lambda>s. \<lparr>seg_start = raw_start s + of_int k,
                         seg_end = raw_end s + of_int k, seg_text = raw_text s\<rparr>)" for k
    by (rule ext) (simp add: adjust_def)
  with chunked_success [OF assms] show ?thesis by simp
qed

theorem adjusted_segments_witness:
  "snd (transcribe_video (sample_env 650) (JStr ''u'') 600) =
     Inr \<lparr>tr_text = ''hello world'',
          tr_segments = [\<lparr>seg_start = 5, seg_end = 9, seg_text = ''hi''\<rparr>,
                         \<lparr>seg_start = 605, seg_end = 609, seg_text = ''hi''\<rparr>]\<rparr>
   \<and> ffprobe (sample_env 650) = Inr 650 \<and> of_int 600 < (650::rat)
   \<and> nat (num_chunks 650 600) = 2
   \<and> transcribe (sample_env 650) (Chunk_file 0) = Inr (sample_result (Chunk_file 0))
   \<and> transcribe (sample_env 650) (Chunk_file 1) = Inr (sample_result (Chunk_file 1))
   \<and> [\<lparr>seg_start = 5, seg_end = 9, seg_text = ''hi''\<rparr>,
       \<lparr>seg_start = 605, seg_end = 609, seg_text = ''hi''\<rparr>] =
     concat (map (\<lambda>i. map (\<lambda>s. \<lparr>seg_start = raw_start s + of_int (int i * 600),
                                 seg_end = raw_end s + of_int (int i * 600),
                                 seg_text = raw_text s\<rparr>)
                           (res_segments (sample_result (Chunk_file i))))
                 [0..<nat (num_chunks 650 600)])"
proof -
  have r: "transcribe_video (sample_env 650) (JStr ''u'') 600 =
    ([Load_model, Yt_dlp ''u'', Ffprobe, Ffmpeg 0 600 0, Ffmpeg 600 600 1,
      Whisper (Chunk_file 0), Whisper (Chunk_file 1)],
     Inr \<lparr>tr_text = ''hello world'',
          tr_segments = [\<lparr>seg_start = 5, seg_end = 9, seg_text = ''hi''\<rparr>,
                         \<lparr>seg_start = 605, seg_end = 609, seg_text = ''hi''\<rparr>]\<rparr>)"
    by code_simp
  have h1: "snd (transcribe_video (sample_env 650) (JStr ''u'') 600) =
     Inr \<lparr>tr_text = ''hello world'',
          tr_segments = [\<lparr>seg_start = 5, seg_end = 9, seg_text = ''hi''\<rparr>,
                         \<lparr>seg_start = 605, seg_end = 609, seg_text = ''hi''\<rparr>]\<rparr>"
    by (simp add: r)
  have h2: "ffprobe (sample_env 650) = Inr 650" by (simp add: sample_env_def)
  have h3: "of_int 600 < (650::rat)" by simp
  have h4: "\<forall>i<nat (num_chunks 650 600).
         transcribe (sample_env 650) (Chunk_file i) = Inr (sample_result (Chunk_file i))"
    by (simp add: sample_env_def)
  have h5: "nat (num_chunks 650 600) = 2" by code_simp
  from adjusted_segments [OF h1 h2 h3 h4] h1 h2 h3 h4 h5 show ?thesis by simp
qed



subsection \<open>The probe\<close>

text \<open>
  Claim C6, as the code has it. When the probe fails (the command exits with an error,
  or its output is not a number), the run fails with that exception right after the
  probe: there is no extraction and no recognition call.
\<close>

theorem unreadable_duration_fails:
  assumes "load_model env = None" and "yt_dlp env url = None" and "ffprobe env = Inl e"
  shows "transcribe_video env (JStr url) c = ([Load_model, Yt_dlp url, Ffprobe], Inl e)"
  using assms by (simp add: transcribe_video_def run_yt_dlp_def)

theorem unreadable_duration_fails_witness:
  "load_model unreadable_env = None \<and> yt_dlp unreadable_env ''u'' = None
   \<and> ffprobe unreadable_env = Inl ValueError
   \<and> transcribe_video unreadable_env (JStr ''u'') 600 =
       ([Load_model, Yt_dlp ''u'', Ffprobe], Inl ValueError)"
  using unreadable_duration_fails [of unreadable_env "''u''" ValueError 600]
  by (simp add: unreadable_env_def sample_env_def)

text \<open>
  Claim C6 as stated also covers a duration that is readable and not positive. The code
  has no such check: a duration of 0 is at most \<open>chunk_duration = 600\<close>, so the audio
  is handed to the model and the run returns a transcript.
\<close>

theorem zero_duration_is_transcribed:
  "ffprobe (sample_env 0) = Inr 0
   \<and> transcribe_video (sample_env 0) (JStr ''u'') 600 =
       ([Load_model, Yt_dlp ''u'', Ffprobe, Whisper Audio_file],
        Inr \<lparr>tr_text = ''all'',
             tr_segments = [\<lparr>seg_start = 5, seg_end = 9, seg_text = ''hi''\<rparr>]\<rparr>)"
  by (simp add: transcribe_video_def run_yt_dlp_def sample_env_def sample_result_def copy_segment_def)

subsection \<open>The endpoint\<close>

text \<open>
  Claim C9. When the body has no \<open>video_url\<close> key, the function makes no external
  call (the trace is empty, so \<open>transcribe_video\<close> was not invoked) and returns a Python
  tuple: the dict \<open>{"error": "video_url is required"}\<close> and the integer 400. The value
  returned is this two-element tuple, not the dict; the 400 is data in the returned
  value, and nothing in the function or in the decorator's arguments (line 154, only
  \<open>method="POST"\<close>) gives the response a status.
\<close>

theorem missing_video_url_returns_error_tuple:
  assumes "item ''video_url'' = None"
  shows "transcribe_endpoint env item = ([], (Error_literal ''video_url is required'', Some 400))"
  using assms by (simp add: transcribe_endpoint_def dict_get_def)

text \<open>The empty body \<open>{}\<close>.\<close>

theorem missing_video_url_returns_error_tuple_witness:
  "(Map.empty :: string \<rightharpoonup> json) ''video_url'' = None
   \<and> transcribe_endpoint (sample_env 650) Map.empty =
       ([], (Error_literal ''video_url is required'', Some 400))"
  using missing_video_url_returns_error_tuple [of Map.empty "sample_env 650"]
  by simp

text \<open>
  Claim C10. The endpoint reads only the key \<open>video_url\<close> of the body. When the value
  is truthy it runs \<open>transcribe_video\<close> on it with \<open>chunk_duration = 600\<close>, the default
  of the signature, and answers with the result (or with the exception's message and
  500). Two bodies with the same \<open>video_url\<close> entry get the same calls and the same
  answer, whatever else they hold.
\<close>

theorem endpoint_uses_default_chunk_duration:
  "transcribe_endpoint env item =
     (if \<not> truthy (dict_get item ''video_url'')
      then ([], (Error_literal ''video_url is required'', Some 400))
      else (case transcribe_video env (dict_get item ''video_url'') 600 of
              (tr, Inr result) \<Rightarrow> (tr, (Result result, None))
            | (tr, Inl e) \<Rightarrow> (tr, (Error_str e, Some 500))))
   \<and> (\<forall>item'. item' ''video_url'' = item ''video_url'' \<longrightarrow>
          transcribe_endpoint env item' = transcribe_endpoint env item)"
  by (simp add: transcribe_endpoint_def transcribe_video_remote_def dict_get_def)

theorem endpoint_uses_default_chunk_duration_witness:
  "transcribe_endpoint (sample_env 650) [''video_url'' \<mapsto> JStr ''u'', ''chunk_duration'' \<mapsto> JNum 300]
     = transcribe_endpoint (sample_env 650) [''video_url'' \<mapsto> JStr ''u'']
   \<and> transcribe_endpoint (sample_env 650) [''video_url'' \<mapsto> JStr ''u''] =
     ([Load_model, Yt_dlp ''u'', Ffprobe, Ffmpeg 0 600 0, Ffmpeg 600 600 1,
       Whisper (Chunk_file 0), Whisper (Chunk_file 1)],
      (Result \<lparr>tr_text = ''hello world'',
          tr_segments = [\<lparr>seg_start = 5, seg_end = 9, seg_text = ''hi''\<rparr>,
                         \<lparr>seg_start = 605, seg_end = 609, seg_text = ''hi''\<rparr>]\<rparr>, None))"
proof -
  have r: "transcribe_video (sample_env 650) (JStr ''u'') 600 =
    ([Load_model, Yt_dlp ''u'', Ffprobe, Ffmpeg 0 600 0, Ffmpeg 600 600 1,
      Whisper (Chunk_file 0), Whisper (Chunk_file 1)],
     Inr \<lparr>tr_text = ''hello world'',
          tr_segments = [\<lparr>seg_start = 5, seg_end = 9, seg_text = ''hi''\<rparr>,
                         \<lparr>seg_start = 605, seg_end = 609, seg_text = ''hi''\<rparr>]\<rparr>)"
    by code_simp
  have a: "transcribe_endpoint (sample_env 650) [''video_url'' \<mapsto> JStr ''u'', ''chunk_duration'' \<mapsto> JNum 300]
     = transcribe_endpoint (sample_env 650) [''video_url'' \<mapsto> JStr ''u'']"
    using endpoint_uses_default_chunk_duration
      [of "sample_env 650" "[''video_url'' \<mapsto> JStr ''u'']"]
    by simp
  have b: "transcribe_endpoint (sample_env 650) [''video_url'' \<mapsto> JStr ''u''] =
     ([Load_model, Yt_dlp ''u'', Ffprobe, Ffmpeg 0 600 0, Ffmpeg 600 600 1,
       Whisper (Chunk_file 0), Whisper (Chunk_file 1)],
      (Result \<lparr>tr_text = ''hello world'',
          tr_segments = [\<lparr>seg_start = 5, seg_end = 9, seg_text = ''hi''\<rparr>,
                         \<lparr>seg_start = 605, seg_end = 609, seg_text = ''hi''\<rparr>]\<rparr>, None))"
    using endpoint_uses_default_chunk_duration
      [of "sample_env 650" "[''video_url'' \<mapsto> JStr ''u'']"]
    by (simp add: dict_get_def r)
  from a b show ?thesis by simp
qed

subsection \<open>Cutting the chunks\<close>




lemma split_loop_extends: "\<exists>ext. fst (split_loop env c ixs tr chunks) = tr @ ext"
proof (induction ixs arbitrary: tr chunks)
  case Nil
  show ?case by simp
next
  case (Cons i ixs)
  show ?case
  proof (cases "ffmpeg env (int i * c) c i")
    case None
    with Cons [of "tr @ [Ffmpeg (int i * c) c i]" "chunks @ [(int i * c, Chunk_file i)]"]
    show ?thesis by (auto simp add: Let_def)
  next
    case (Some e)
    then show ?thesis by (simp add: Let_def)
  qed
qed

lemma transcribe_loop_extends: "\<exists>ext. fst (transcribe_loop env chs tr segs texts) = tr @ ext"
proof (induction chs arbitrary: tr segs texts)
  case Nil
  show ?case by simp
next
  case (Cons ch chs)
  obtain st f where ch: "ch = (st, f)" by (cases ch)
  show ?case
  proof (cases "transcribe env f")
    case (Inl e)
    with ch show ?thesis by (simp add: Let_def)
  next
    case (Inr r)
    with ch Cons [of "tr @ [Whisper f]" "segs @ map (adjust st) (res_segments r)" "texts @ [res_text r]"]
    show ?thesis by (auto simp add: Let_def)
  qed
qed

lemma trace_starts_with_probe:
  assumes "load_model env = None" and "yt_dlp env url = None" and "ffprobe env = Inr d"
  shows "\<exists>ext. fst (transcribe_video env (JStr url) c) = [Load_model, Yt_dlp url, Ffprobe] @ ext"
proof -
  let ?tr = "[Load_model, Yt_dlp url, Ffprobe]"
  let ?n = "py_range (num_chunks d c)"
  consider (short) "d \<le> of_int c" | (zero) "of_int c < d" "c = 0" | (long) "of_int c < d" "c \<noteq> 0"
    by fastforce
  then show ?thesis
  proof cases
    case short
    with assms show ?thesis
      by (simp add: transcribe_video_def run_yt_dlp_def Let_def split: sum.splits)
  next
    case zero
    with assms show ?thesis
      by (simp add: transcribe_video_def run_yt_dlp_def Let_def)
  next
    case long
    obtain tr' r where s: "split_loop env c ?n ?tr [] = (tr', r)" by (cases "split_loop env c ?n ?tr []")
    from split_loop_extends [of env c ?n ?tr "[]"] s obtain e1 where e1: "tr' = ?tr @ e1" by auto
    show ?thesis
    proof (cases r)
      case (Inl e)
      with assms long s e1 show ?thesis
        by (simp add: transcribe_video_def run_yt_dlp_def Let_def)
    next
      case (Inr chunks)
      obtain tr'' r' where t: "transcribe_loop env chunks tr' [] [] = (tr'', r')"
        by (cases "transcribe_loop env chunks tr' [] []")
      from transcribe_loop_extends [of env chunks tr' "[]" "[]"] t e1
      obtain e2 where "tr'' = ?tr @ e2" by auto
      with assms long s Inr t show ?thesis
        by (cases r') (auto simp add: transcribe_video_def run_yt_dlp_def Let_def)
    qed
  qed
qed




subsection \<open>A chunk duration that is not positive\<close>

text \<open>
  Claim C5, as the code has it. \<open>chunk_duration\<close> is not validated. Whatever its value,
  the model is loaded, the audio downloaded and the duration probed first. With
  \<open>chunk_duration = 0\<close> and a positive duration the run then fails with
  \<open>ZeroDivisionError\<close>; with \<open>chunk_duration < 0\<close> and a duration of at least
  \<open>- chunk_duration\<close> it returns an empty transcript. Neither makes an extraction or a
  recognition call.
\<close>

theorem nonpositive_chunk_duration_not_validated:
  assumes "load_model env = None" and "yt_dlp env url = None" and "ffprobe env = Inr d"
    and "c \<le> 0"
  shows "take 3 (fst (transcribe_video env (JStr url) c)) = [Load_model, Yt_dlp url, Ffprobe]
       \<and> (c = 0 \<and> 0 < d \<longrightarrow>
            transcribe_video env (JStr url) c =
              ([Load_model, Yt_dlp url, Ffprobe], Inl ZeroDivisionError))
       \<and> (c < 0 \<and> of_int (- c) \<le> d \<longrightarrow>
            transcribe_video env (JStr url) c =
              ([Load_model, Yt_dlp url, Ffprobe], Inr \<lparr>tr_text = [], tr_segments = []\<rparr>))"
proof -
  from trace_starts_with_probe [OF assms(1-3), of c]
  have a: "take 3 (fst (transcribe_video env (JStr url) c)) = [Load_model, Yt_dlp url, Ffprobe]"
    by auto
  have b: "transcribe_video env (JStr url) c =
              ([Load_model, Yt_dlp url, Ffprobe], Inl ZeroDivisionError)" if "c = 0" "0 < d"
    using assms that by (simp add: transcribe_video_def run_yt_dlp_def)
  have e: "transcribe_video env (JStr url) c =
              ([Load_model, Yt_dlp url, Ffprobe], Inr \<lparr>tr_text = [], tr_segments = []\<rparr>)"
    if neg: "c < 0" "of_int (- c) \<le> d"
  proof -
    have cd: "of_int c < d" using neg by (simp add: less_le_trans [of "of_int c" 0 d] order_trans [of 0 "- of_int c" d])
    have "d / of_int c \<le> - 1"
      using neg by (simp add: divide_le_eq)
    then have "\<lceil>d / of_int c\<rceil> \<le> - 1" "d / of_int c < 0"
      by (simp_all add: ceiling_le_iff)
    then have "num_chunks d c \<le> 0"
      by (simp add: num_chunks_def py_int_def)
    then have "[0..<nat (num_chunks d c)] = []" by simp
    with chunked_unfold [OF assms(1-3) cd] neg(1) show ?thesis by simp
  qed
  from a b e show ?thesis by blast
qed

theorem nonpositive_chunk_duration_not_validated_witness:
  "load_model (sample_env 650) = None \<and> yt_dlp (sample_env 650) ''u'' = None
   \<and> ffprobe (sample_env 650) = Inr 650 \<and> (0::int) \<le> 0 \<and> (0::rat) < 650
   \<and> take 3 (fst (transcribe_video (sample_env 650) (JStr ''u'') 0)) =
        [Load_model, Yt_dlp ''u'', Ffprobe]
   \<and> transcribe_video (sample_env 650) (JStr ''u'') 0 =
        ([Load_model, Yt_dlp ''u'', Ffprobe], Inl ZeroDivisionError)"
  using nonpositive_chunk_duration_not_validated [of "sample_env 650" "''u''" 650 0]
  by (simp add: sample_env_def)

text \<open>
  Claim C5 as stated wants a failure before any call. With \<open>chunk_duration = -600\<close> and
  a duration of 650 the run loads the model, downloads, probes and returns normally.
\<close>

theorem negative_chunk_duration_is_accepted:
  "(- 600::int) \<le> 0
   \<and> transcribe_video (sample_env 650) (JStr ''u'') (- 600) =
       ([Load_model, Yt_dlp ''u'', Ffprobe], Inr \<lparr>tr_text = [], tr_segments = []\<rparr>)"
  by code_simp

subsection \<open>The order of the merged segments\<close>

lemma starts_of_adjust: "map seg_start (map (adjust k) segs) = map (\<lambda>s. raw_start s + of_int k) segs"
  by (simp add: adjust_def)

lemma sorted_shift:
  "sorted (map raw_start segs) \<Longrightarrow> sorted (map (\<lambda>s. raw_start s + (k::rat)) segs)"
  by (simp add: sorted_map sorted_wrt_iff_nth_less)

lemma sorted_chunks:
  assumes "0 \<le> c"
    and "\<forall>i<n. sorted (map raw_start (S i))
              \<and> (\<forall>s\<in>set (S i). 0 \<le> raw_start s \<and> raw_start s \<le> of_int c)"
  shows "sorted (map seg_start (concat (map (\<lambda>i. map (adjust (int i * c)) (S i)) [0..<n])))
       \<and> (\<forall>x\<in>set (concat (map (\<lambda>i. map (adjust (int i * c)) (S i)) [0..<n])).
             seg_start x \<le> of_int (int n * c))"
  using assms(2)
proof (induction n)
  case 0
  show ?case by simp
next
  case (Suc n)
  let ?A = "concat (map (\<lambda>i. map (adjust (int i * c)) (S i)) [0..<n])"
  let ?B = "map (adjust (int n * c)) (S n)"
  from Suc.prems have "\<forall>i<n. sorted (map raw_start (S i))
              \<and> (\<forall>s\<in>set (S i). 0 \<le> raw_start s \<and> raw_start s \<le> of_int c)"
    using less_SucI by blast
  from Suc.IH [OF this]
  have ih: "sorted (map seg_start ?A)" "\<forall>x\<in>set ?A. seg_start x \<le> of_int (int n * c)"
    by blast+
  from Suc.prems have sn: "sorted (map raw_start (S n))"
    and bn: "\<forall>s\<in>set (S n). 0 \<le> raw_start s \<and> raw_start s \<le> of_int c"
    using lessI by blast+
  have sB: "sorted (map seg_start ?B)"
    unfolding starts_of_adjust using sn by (rule sorted_shift)
  have lo: "\<forall>y\<in>set ?B. of_int (int n * c) \<le> seg_start y"
    using bn by (auto simp add: adjust_def)
  have step: "(of_int (int n * c) :: rat) \<le> of_int (int (Suc n) * c)"
    using assms(1) by (simp add: algebra_simps)
  have hi: "\<forall>y\<in>set ?B. seg_start y \<le> of_int (int (Suc n) * c)"
    using bn by (auto simp add: adjust_def algebra_simps)
  have split: "concat (map (\<lambda>i. map (adjust (int i * c)) (S i)) [0..<Suc n]) = ?A @ ?B"
    by simp
  have "sorted (map seg_start (?A @ ?B))"
    using ih sB lo by (fastforce simp add: sorted_append)
  moreover have "\<forall>x\<in>set (?A @ ?B). seg_start x \<le> of_int (int (Suc n) * c)"
    using ih(2) hi step by (fastforce intro: order_trans)
  ultimately show ?case unfolding split by blast
qed

lemma no_segments_when_negative:
  assumes "c < 0"
    and "\<forall>i<n. \<forall>s\<in>set (S i). 0 \<le> raw_start s \<and> raw_start s \<le> (of_int c :: rat)"
  shows "concat (map (\<lambda>i. map (adjust (int i * c)) (S i)) [0..<n]) = []"
proof -
  have "S i = []" if "i < n" for i
  proof (cases "S i")
    case Nil
    then show ?thesis .
  next
    case (Cons s ss)
    with assms(2) that have "0 \<le> raw_start s" "raw_start s \<le> of_int c" by auto
    then have "(0::rat) \<le> of_int c" by (rule order_trans)
    with assms(1) show ?thesis by simp
  qed
  then show ?thesis by simp
qed

text \<open>
  Claim C4. Suppose that whenever the model returns a result, its segments are ordered
  by start time and every start lies between 0 and \<open>chunk_duration\<close>. Then in every run
  that returns a transcript, on the direct and on the chunked path, the segments of
  the transcript are in non-decreasing order of start time.
\<close>

theorem merged_segments_are_sorted:
  assumes "snd (transcribe_video env video_url c) = Inr t"
    and "\<forall>f res. transcribe env f = Inr res \<longrightarrow>
            sorted (map raw_start (res_segments res))
            \<and> (\<forall>s\<in>set (res_segments res). 0 \<le> raw_start s \<and> raw_start s \<le> of_int c)"
  shows "sorted (map seg_start (tr_segments t))"
proof -
  from success_pre [OF assms(1)] obtain url d where
    pre: "load_model env = None" "yt_dlp env url = None" "ffprobe env = Inr d"
    and v: "video_url = JStr url" and c0: "of_int c < d \<longrightarrow> c \<noteq> 0"
    by auto
  show ?thesis
  proof (cases "d \<le> of_int c")
    case True
    with pre v assms(1) obtain res where
      res: "transcribe env Audio_file = Inr res" and t: "tr_segments t = map copy_segment (res_segments res)"
      by (auto simp add: transcribe_video_def run_yt_dlp_def Let_def split: sum.splits)
    have "seg_start \<circ> copy_segment = raw_start"
      by (rule ext) (simp add: copy_segment_def)
    moreover from assms(2) res have "sorted (map raw_start (res_segments res))" by blast
    ultimately show ?thesis by (simp add: t)
  next
    case False
    then have long: "of_int c < d" by simp
    with c0 have cz: "c \<noteq> 0" by simp
    let ?n = "nat (num_chunks d c)"
    let ?rs = "\<lambda>i. projr (transcribe env (Chunk_file i))"
    from chunked_success_inv [OF pre long cz] assms(1) v
    have "\<forall>i<?n. \<exists>r. transcribe env (Chunk_file i) = Inr r" by simp
    then have rs: "\<forall>i<?n. transcribe env (Chunk_file i) = Inr (?rs i)" by auto
    from chunked_success [OF assms(1) pre(3) long rs]
    have t: "tr_segments t = concat (map (\<lambda>i. map (adjust (int i * c)) (res_segments (?rs i))) [0..<?n])"
      by simp
    from rs assms(2)
    have good: "\<forall>i<?n. sorted (map raw_start (res_segments (?rs i)))
              \<and> (\<forall>s\<in>set (res_segments (?rs i)). 0 \<le> raw_start s \<and> raw_start s \<le> of_int c)"
      by blast
    show ?thesis
    proof (cases "0 \<le> c")
      case True
      from sorted_chunks [OF True good] t show ?thesis by simp
    next
      case False
      then have neg: "c < 0" by simp
      from good have "\<forall>i<?n. \<forall>s\<in>set (res_segments (?rs i)).
                         0 \<le> raw_start s \<and> raw_start s \<le> of_int c"
        by blast
      from no_segments_when_negative [OF neg this] have "tr_segments t = []"
        unfolding t .
      then show ?thesis by simp
    qed
  qed
qed

theorem merged_segments_are_sorted_witness:
  "snd (transcribe_video (sample_env 1200) (JStr ''u'') 600) =
     Inr \<lparr>tr_text = ''hello world world'',
          tr_segments = [\<lparr>seg_start = 5, seg_end = 9, seg_text = ''hi''\<rparr>,
                         \<lparr>seg_start = 605, seg_end = 609, seg_text = ''hi''\<rparr>,
                         \<lparr>seg_start = 1205, seg_end = 1209, seg_text = ''hi''\<rparr>]\<rparr>
   \<and> sorted (map seg_start [\<lparr>seg_start = 5, seg_end = 9, seg_text = ''hi''\<rparr>,
                         \<lparr>seg_start = 605, seg_end = 609, seg_text = ''hi''\<rparr>,
                         \<lparr>seg_start = 1205, seg_end = 1209, seg_text = ''hi''\<rparr>])"
proof -
  have h1: "snd (transcribe_video (sample_env 1200) (JStr ''u'') 600) =
     Inr \<lparr>tr_text = ''hello world world'',
          tr_segments = [\<lparr>seg_start = 5, seg_end = 9, seg_text = ''hi''\<rparr>,
                         \<lparr>seg_start = 605, seg_end = 609, seg_text = ''hi''\<rparr>,
                         \<lparr>seg_start = 1205, seg_end = 1209, seg_text = ''hi''\<rparr>]\<rparr>"
    by code_simp
  have h2: "\<forall>f res. transcribe (sample_env 1200) f = Inr res \<longrightarrow>
            sorted (map raw_start (res_segments res))
            \<and> (\<forall>s\<in>set (res_segments res). 0 \<le> raw_start s \<and> raw_start s \<le> of_int 600)"
    by (auto simp add: sample_env_def sample_result_def)
  from merged_segments_are_sorted [OF h1 h2] h1 show ?thesis by simp
qed

subsection \<open>Failures\<close>

lemma clean_fail:
  assumes "distinct (tr @ [ev])" and "\<forall>x\<in>set tr. outcome env x = None"
    and "outcome env ev = Some e"
  shows "clean_trace env (tr @ [ev], Inl e)"
  using assms by (simp add: clean_trace_def)

lemma clean_all_ok:
  assumes "distinct tr" and "\<forall>x\<in>set tr. outcome env x = None"
  shows "clean_trace env (tr, r)"
proof -
  have "\<forall>ev\<in>set (butlast tr). outcome env ev = None"
    using assms(2) by (blast dest: in_set_butlastD)
  moreover have "outcome env (last tr) = None" if "tr \<noteq> []"
    using assms(2) that by simp
  ultimately show ?thesis using assms(1) by (auto simp add: clean_trace_def)
qed

lemma distinct_chunk_calls:
  "distinct ([Load_model, Yt_dlp url, Ffprobe] @ map (cut_event c) [0..<n]
             @ map (\<lambda>i. Whisper (Chunk_file i)) [0..<m])"
  by (auto simp add: distinct_map inj_on_def cut_event_def)

lemma clean_transcribe_video: "clean_trace env (transcribe_video env v c)"
proof (cases "load_model env")
  case (Some e)
  have "transcribe_video env v c = ([] @ [Load_model], Inl e)"
    using Some by (simp add: transcribe_video_def)
  moreover have "clean_trace env ([] @ [Load_model], Inl e)"
    by (rule clean_fail) (simp_all add: Some)
  ultimately show ?thesis by simp
next
  case None
  note load = this
  show ?thesis
  proof (cases "\<exists>url. v = JStr url")
    case False
    then have "transcribe_video env v c = ([Load_model], Inl TypeError)"
      using load by (cases v) (simp_all add: transcribe_video_def run_yt_dlp_def)
    moreover have "clean_trace env ([Load_model], Inl TypeError)"
      by (rule clean_all_ok) (simp_all add: load)
    ultimately show ?thesis by simp
  next
    case True
    then obtain url where v: "v = JStr url" by blast
    show ?thesis
    proof (cases "yt_dlp env url")
      case (Some e)
      have "transcribe_video env v c = ([Load_model] @ [Yt_dlp url], Inl e)"
        using load v Some by (simp add: transcribe_video_def run_yt_dlp_def)
      moreover have "clean_trace env ([Load_model] @ [Yt_dlp url], Inl e)"
        by (rule clean_fail) (simp_all add: load Some)
      ultimately show ?thesis by simp
    next
      case None
      note yt = this
      show ?thesis
      proof (cases "ffprobe env")
        case (Inl e)
        have "transcribe_video env v c = ([Load_model, Yt_dlp url] @ [Ffprobe], Inl e)"
          using load v yt Inl by (simp add: transcribe_video_def run_yt_dlp_def)
        moreover have "clean_trace env ([Load_model, Yt_dlp url] @ [Ffprobe], Inl e)"
          by (rule clean_fail) (simp_all add: load yt Inl)
        ultimately show ?thesis by simp
      next
        case (Inr d)
        note probe = this
        let ?tr = "[Load_model, Yt_dlp url, Ffprobe]"
        have tr_ok: "\<forall>x\<in>set ?tr. outcome env x = None"
          by (simp add: load yt probe)
        consider (short) "d \<le> of_int c" | (zero) "of_int c < d" "c = 0"
          | (long) "of_int c < d" "c \<noteq> 0"
          by fastforce
        then show ?thesis
        proof cases
          case short
          show ?thesis
          proof (cases "transcribe env Audio_file")
            case (Inl e)
            have "transcribe_video env v c = (?tr @ [Whisper Audio_file], Inl e)"
              using load v yt probe short Inl
              by (simp add: transcribe_video_def run_yt_dlp_def)
            moreover have "clean_trace env (?tr @ [Whisper Audio_file], Inl e)"
              by (rule clean_fail) (simp_all add: load yt probe Inl)
            ultimately show ?thesis by simp
          next
            case (Inr res)
            have "fst (transcribe_video env v c) = ?tr @ [Whisper Audio_file]"
              using load v yt probe short Inr
              by (simp add: transcribe_video_def run_yt_dlp_def)
            moreover have "clean_trace env (?tr @ [Whisper Audio_file], snd (transcribe_video env v c))"
              by (rule clean_all_ok) (simp_all add: load yt probe Inr)
            ultimately show ?thesis by (metis prod.collapse)
          qed
        next
          case zero
          have "transcribe_video env v c = (?tr, Inl ZeroDivisionError)"
            using load v yt probe zero by (simp add: transcribe_video_def run_yt_dlp_def)
          moreover have "clean_trace env (?tr, Inl ZeroDivisionError)"
            by (rule clean_all_ok) (simp_all add: load yt probe)
          ultimately show ?thesis by simp
        next
          case long
          note pre = load yt probe long
          let ?n = "nat (num_chunks d c)"
          show ?thesis
          proof (cases "\<exists>i<?n. ffmpeg env (int i * c) c i \<noteq> None")
            case True
            from first_failure [OF this]
            obtain i e where i: "i < ?n" "ffmpeg env (int i * c) c i = Some e"
              "\<forall>j<i. ffmpeg env (int j * c) c j = None" by auto
            from chunked_cut_fail [OF pre i(1) i(3) i(2)] v
            have "transcribe_video env v c = ((?tr @ map (cut_event c) [0..<i]) @ [cut_event c i], Inl e)"
              by simp
            moreover have "clean_trace env ((?tr @ map (cut_event c) [0..<i]) @ [cut_event c i], Inl e)"
            proof (rule clean_fail)
              show "distinct ((?tr @ map (cut_event c) [0..<i]) @ [cut_event c i])"
                using distinct_chunk_calls [of url c "Suc i" 0] by simp
              show "\<forall>x\<in>set (?tr @ map (cut_event c) [0..<i]). outcome env x = None"
                using tr_ok i(3) by (auto simp add: cut_event_def)
              show "outcome env (cut_event c i) = Some e"
                using i(2) by (simp add: cut_event_def)
            qed
            ultimately show ?thesis by simp
          next
            case False
            then have cuts: "\<forall>i<?n. ffmpeg env (int i * c) c i = None" by simp
            have cuts_ok: "\<forall>x\<in>set (?tr @ map (cut_event c) [0..<?n]). outcome env x = None"
              using tr_ok cuts by (auto simp add: cut_event_def)
            show ?thesis
            proof (cases "\<exists>i<?n. \<not> (\<exists>r. transcribe env (Chunk_file i) = Inr r)")
              case True
              from first_failure [OF this]
              obtain i where i: "i < ?n" "\<not> (\<exists>r. transcribe env (Chunk_file i) = Inr r)"
                "\<forall>j<i. \<exists>r. transcribe env (Chunk_file j) = Inr r" by auto
              from i(2) obtain e where e: "transcribe env (Chunk_file i) = Inl e"
                by (cases "transcribe env (Chunk_file i)") auto
              let ?done = "?tr @ map (cut_event c) [0..<?n] @ map (\<lambda>i. Whisper (Chunk_file i)) [0..<i]"
              from chunked_rec_fail [OF pre cuts i(1) i(3) e] v
              have "transcribe_video env v c = (?done @ [Whisper (Chunk_file i)], Inl e)"
                by simp
              moreover have "clean_trace env (?done @ [Whisper (Chunk_file i)], Inl e)"
              proof (rule clean_fail)
                show "distinct (?done @ [Whisper (Chunk_file i)])"
                  using distinct_chunk_calls [of url c ?n "Suc i"] by simp
                show "\<forall>x\<in>set ?done. outcome env x = None"
                  using cuts_ok i(3) by auto
                show "outcome env (Whisper (Chunk_file i)) = Some e"
                  using e by simp
              qed
              ultimately show ?thesis by simp
            next
              case False
              then have recs: "\<forall>i<?n. \<exists>r. transcribe env (Chunk_file i) = Inr r"
                by simp
              then have rs: "\<forall>i<?n. transcribe env (Chunk_file i)
                                 = Inr (projr (transcribe env (Chunk_file i)))"
                by auto
              have recs_ok: "\<forall>i<?n. outcome env (Whisper (Chunk_file i)) = None"
                using recs by fastforce
              let ?all = "?tr @ map (cut_event c) [0..<?n] @ map (\<lambda>i. Whisper (Chunk_file i)) [0..<?n]"
              from chunked_ok [OF pre cuts rs] v
              have "fst (transcribe_video env v c) = ?all" by simp
              moreover have "clean_trace env (?all, snd (transcribe_video env v c))"
              proof (rule clean_all_ok)
                show "distinct ?all" by (rule distinct_chunk_calls)
                show "\<forall>x\<in>set ?all. outcome env x = None"
                  using cuts_ok recs_ok by (auto simp del: outcome.simps)
              qed
              ultimately show ?thesis by (metis prod.collapse)
            qed
          qed
        qed
      qed
    qed
  qed
qed

text \<open>
  Claim C8. When a call that the run made failed, be it an extraction, a recognition or
  any other external call, the run's result is that call's exception and not a
  transcript, so nothing of the chunks done before is returned. The failed call is the
  last call of the run, and no call occurs twice in the run: nothing is retried.
\<close>

theorem failed_call_aborts_run:
  assumes "ev \<in> set (fst (transcribe_video env video_url c))"
    and "outcome env ev = Some e"
  shows "snd (transcribe_video env video_url c) = Inl e
       \<and> last (fst (transcribe_video env video_url c)) = ev
       \<and> distinct (fst (transcribe_video env video_url c))"
proof -
  let ?r = "transcribe_video env video_url c"
  have clean: "clean_trace env ?r" by (rule clean_transcribe_video)
  from assms(1) have ne: "fst ?r \<noteq> []" by auto
  then have "fst ?r = butlast (fst ?r) @ [last (fst ?r)]" by simp
  with assms(1) have "ev \<in> set (butlast (fst ?r)) \<or> ev = last (fst ?r)"
    by (metis Un_iff empty_iff empty_set insert_iff list.simps(15) set_append)
  moreover have "ev \<notin> set (butlast (fst ?r))"
    using clean assms(2) by (auto simp add: clean_trace_def)
  ultimately have l: "last (fst ?r) = ev" by simp
  with clean ne assms(2) show ?thesis by (simp add: clean_trace_def)
qed

theorem failed_call_aborts_run_witness:
  "Whisper (Chunk_file 1) \<in> set (fst (transcribe_video (failing_env 1200) (JStr ''u'') 600))
   \<and> outcome (failing_env 1200) (Whisper (Chunk_file 1)) = Some ModelError
   \<and> transcribe_video (failing_env 1200) (JStr ''u'') 600 =
       ([Load_model, Yt_dlp ''u'', Ffprobe, Ffmpeg 0 600 0, Ffmpeg 600 600 1, Ffmpeg 1200 600 2,
         Whisper (Chunk_file 0), Whisper (Chunk_file 1)], Inl ModelError)"
proof -
  have r: "transcribe_video (failing_env 1200) (JStr ''u'') 600 =
       ([Load_model, Yt_dlp ''u'', Ffprobe, Ffmpeg 0 600 0, Ffmpeg 600 600 1, Ffmpeg 1200 600 2,
         Whisper (Chunk_file 0), Whisper (Chunk_file 1)], Inl ModelError)"
    by code_simp
  have h1: "Whisper (Chunk_file 1) \<in> set (fst (transcribe_video (failing_env 1200) (JStr ''u'') 600))"
    by (simp add: r)
  have h2: "outcome (failing_env 1200) (Whisper (Chunk_file 1)) = Some ModelError"
    by (simp add: failing_env_def)
  from failed_call_aborts_run [OF h1 h2] h1 h2 r show ?thesis by simp
qed

end
